theory Spec2Isabelle
  imports Main
begin

section \<open>Data model of \<^verbatim>\<open>assistant/probes/controller.py\<close>\<close>

text \<open>
  The two exception classes of the module override \<^verbatim>\<open>__init__\<close> to store a formatted
  text in the attribute \<^verbatim>\<open>msg\<close> and do not call the base initialiser. An exception
  object therefore carries two things: the constructor argument, which Python's
  \<^verbatim>\<open>BaseException.__new__\<close> keeps in \<^verbatim>\<open>args\<close>, and the attribute \<^verbatim>\<open>msg\<close>.
\<close>

record py_exception =
  exc_args :: string
  exc_msg :: string

definition FunctionNotFoundError_init :: "string \<Rightarrow> py_exception" where
  "FunctionNotFoundError_init m =
     \<lparr>exc_args = m, exc_msg = ''Probe callable function not found: '' @ m\<rparr>"

definition ProbeNotFoundError_init :: "string \<Rightarrow> py_exception" where
  "ProbeNotFoundError_init m = \<lparr>exc_args = m, exc_msg = ''Probe not found: '' @ m\<rparr>"

text \<open>
  Neither class defines \<^verbatim>\<open>__str__\<close>, so \<^verbatim>\<open>str(err)\<close>, which is what \<^verbatim>\<open>print(err)\<close>
  writes, is that of \<^verbatim>\<open>BaseException\<close>: for a single constructor argument, the
  argument itself.
\<close>

definition str_exception :: "py_exception \<Rightarrow> string" where
  "str_exception err = exc_args err"

text \<open>
  An exception in flight is an instance of one of the module's two classes, or of any
  other class (\<open>'x\<close> stands for those; the controller never inspects them).
\<close>

datatype 'x exc =
    FunctionNotFoundError py_exception
  | ProbeNotFoundError py_exception
  | OtherError 'x

text \<open>
  A function definition is the dictionary a probe publishes: the controller reads its
  key \<^verbatim>\<open>'name'\<close> and passes the rest through untouched (\<open>'d\<close>).
\<close>

record 'd fdef =
  fd_name :: string
  fd_rest :: 'd

text \<open>An item of \<^verbatim>\<open>__function_index\<close>: \<^verbatim>\<open>{'probe': ..., 'function': ...}\<close>.\<close>

record 'd entry =
  entry_probe :: string
  entry_function :: "'d fdef"

text \<open>
  An item of \<^verbatim>\<open>__probe_index\<close>. The two hooks are functions of another module: they
  may read and change the environment (\<open>'w\<close>), and they may raise. Arguments of a call
  (\<open>'a\<close>) are opaque to the controller.
\<close>

record ('a, 'd, 'x, 'w) probe =
  name :: string
  list_function :: "'w \<Rightarrow> ('x exc + 'd fdef list) \<times> 'w"
  call_function :: "string \<Rightarrow> 'a \<Rightarrow> 'w \<Rightarrow> ('x exc + string) \<times> 'w"

text \<open>
  The two records \<^verbatim>\<open>logger.debug\<close> receives in \<^verbatim>\<open>function_call\<close>, by the values
  formatted into them: \<^verbatim>\<open>'Calling {0}.{1}():\n{2}'\<close> and
  \<^verbatim>\<open>'Function result: {0}.{1}()\n{2}'\<close>.
\<close>

datatype 'a log_record =
    Calling string string 'a
  | FunctionResult string string string

text \<open>
  Both indexes are attributes of the class \<^verbatim>\<open>ProbeController\<close>, not of its instances:
  every instance reads and appends to the same two lists. The state is these two lists,
  the environment the probes act on, and the two output channels the module writes to.

  Names are Python strings, which a \<open>string\<close> stands for by its bytes. The stream
  \<^verbatim>\<open>sys.stdout\<close> is not the module's, and its \<^verbatim>\<open>write\<close> does not take every text: a
  strict encoding refuses what it cannot encode (\<^verbatim>\<open>UnicodeEncodeError\<close>, for a lone
  surrogate under any encoding). \<open>stdout_error\<close> is the stream as the process has it:
  the exception its \<^verbatim>\<open>write\<close> raises for a text, or \<open>None\<close> when the text is written.
\<close>

record ('a, 'd, 'x, 'w) state =
  probe_index :: "('a, 'd, 'x, 'w) probe list"
  function_index :: "'d entry list"
  world :: 'w
  debug_log :: "'a log_record list"
  stdout :: "string list"
  stdout_error :: "string \<Rightarrow> 'x option"

text \<open>The class as its definition leaves it: \<^verbatim>\<open>__function_index = []\<close>.\<close>

definition class_definition ::
  "('a, 'd, 'x, 'w) probe list \<Rightarrow> 'w \<Rightarrow> (string \<Rightarrow> 'x option) \<Rightarrow> ('a, 'd, 'x, 'w) state" where
  "class_definition ps w out =
     \<lparr>probe_index = ps, function_index = [], world = w, debug_log = [], stdout = [],
      stdout_error = out\<rparr>"

section \<open>The controller\<close>

subsection \<open>\<^verbatim>\<open>__init__\<close>\<close>

text \<open>The inner loop: one \<^verbatim>\<open>append\<close> per function the probe lists.\<close>

fun append_functions :: "string \<Rightarrow> 'd fdef list \<Rightarrow> 'd entry list \<Rightarrow> 'd entry list" where
  "append_functions pn [] idx = idx"
| "append_functions pn (probe_func # rest) idx =
     append_functions pn rest (idx @ [\<lparr>entry_probe = pn, entry_function = probe_func\<rparr>])"

text \<open>The outer loop over \<^verbatim>\<open>__probe_index\<close>; a raising hook ends it where it stands.\<close>

fun init_loop ::
  "('a, 'd, 'x, 'w) probe list \<Rightarrow> ('a, 'd, 'x, 'w) state \<Rightarrow>
   ('x exc + unit) \<times> ('a, 'd, 'x, 'w) state" where
  "init_loop [] s = (Inr (), s)"
| "init_loop (probe # rest) s =
     (case list_function probe (world s) of
        (Inl err, w) \<Rightarrow> (Inl err, s\<lparr>world := w\<rparr>)
      | (Inr fs, w) \<Rightarrow>
          init_loop rest
            (s\<lparr>world := w,
               function_index := append_functions (name probe) fs (function_index s)\<rparr>))"

definition init :: "('a, 'd, 'x, 'w) state \<Rightarrow> ('x exc + unit) \<times> ('a, 'd, 'x, 'w) state" where
  "init s = init_loop (probe_index s) s"

subsection \<open>\<^verbatim>\<open>__get_probe\<close> and \<^verbatim>\<open>__get_function\<close>\<close>

text \<open>
  Both searches walk a list of the class from its head and return at the first match;
  falling off the end raises.
\<close>

fun get_probe_loop ::
  "('a, 'd, 'x, 'w) probe list \<Rightarrow> string \<Rightarrow> 'x exc + ('a, 'd, 'x, 'w) probe" where
  "get_probe_loop [] n = Inl (ProbeNotFoundError (ProbeNotFoundError_init n))"
| "get_probe_loop (probe # rest) n =
     (if name probe = n then Inr probe else get_probe_loop rest n)"

definition get_probe ::
  "('a, 'd, 'x, 'w) state \<Rightarrow> string \<Rightarrow> 'x exc + ('a, 'd, 'x, 'w) probe" where
  "get_probe s n = get_probe_loop (probe_index s) n"

fun get_function_loop :: "'d entry list \<Rightarrow> string \<Rightarrow> 'x exc + 'd entry" where
  "get_function_loop [] n = Inl (FunctionNotFoundError (FunctionNotFoundError_init n))"
| "get_function_loop (func # rest) n =
     (if fd_name (entry_function func) = n then Inr func else get_function_loop rest n)"

definition get_function :: "('a, 'd, 'x, 'w) state \<Rightarrow> string \<Rightarrow> 'x exc + 'd entry" where
  "get_function s n = get_function_loop (function_index s) n"

subsection \<open>\<^verbatim>\<open>function_list\<close>\<close>

fun function_list_loop ::
  "('a, 'd, 'x, 'w) probe list \<Rightarrow> 'd fdef list \<Rightarrow> ('a, 'd, 'x, 'w) state \<Rightarrow>
   ('x exc + 'd fdef list) \<times> ('a, 'd, 'x, 'w) state" where
  "function_list_loop [] return_list s = (Inr return_list, s)"
| "function_list_loop (probe # rest) return_list s =
     (case list_function probe (world s) of
        (Inl err, w) \<Rightarrow> (Inl err, s\<lparr>world := w\<rparr>)
      | (Inr fs, w) \<Rightarrow> function_list_loop rest (return_list @ fs) (s\<lparr>world := w\<rparr>))"

definition function_list ::
  "('a, 'd, 'x, 'w) state \<Rightarrow> ('x exc + 'd fdef list) \<times> ('a, 'd, 'x, 'w) state" where
  "function_list s = function_list_loop (probe_index s) [] s"

subsection \<open>\<^verbatim>\<open>function_call\<close>\<close>

text \<open>
  \<^verbatim>\<open>print(text)\<close>: the line reaches the stream, or the stream's \<^verbatim>\<open>write\<close> raises and
  nothing is written.
\<close>

definition py_print ::
  "string \<Rightarrow> ('a, 'd, 'x, 'w) state \<Rightarrow> ('x exc + unit) \<times> ('a, 'd, 'x, 'w) state" where
  "py_print text s =
     (case stdout_error s text of
        None \<Rightarrow> (Inr (), s\<lparr>stdout := stdout s @ [text]\<rparr>)
      | Some x \<Rightarrow> (Inl (OtherError x), s))"

text \<open>
  The two \<^verbatim>\<open>except\<close> clauses, tried on whatever the \<^verbatim>\<open>try\<close> block raised: each prints
  \<^verbatim>\<open>err\<close> and returns \<^verbatim>\<open>None\<close>; an exception of any other class leaves the function.
  The \<^verbatim>\<open>print\<close> stands inside the handler, where no clause covers it: what it raises
  leaves the function too, before \<^verbatim>\<open>return None\<close> is reached.
\<close>

fun except_clauses ::
  "'x exc \<Rightarrow> ('a, 'd, 'x, 'w) state \<Rightarrow> ('x exc + string option) \<times> ('a, 'd, 'x, 'w) state" where
  "except_clauses (FunctionNotFoundError err) s =
     (case py_print (str_exception err) s of
        (Inl raised, s') \<Rightarrow> (Inl raised, s')
      | (Inr _, s') \<Rightarrow> (Inr None, s'))"
| "except_clauses (ProbeNotFoundError err) s =
     (case py_print (str_exception err) s of
        (Inl raised, s') \<Rightarrow> (Inl raised, s')
      | (Inr _, s') \<Rightarrow> (Inr None, s'))"
| "except_clauses (OtherError x) s = (Inl (OtherError x), s)"

definition function_call ::
  "string \<Rightarrow> 'a \<Rightarrow> ('a, 'd, 'x, 'w) state \<Rightarrow>
   ('x exc + string option) \<times> ('a, 'd, 'x, 'w) state" where
  "function_call function_name function_args s =
     (case get_function s function_name of
        Inl err \<Rightarrow> except_clauses err s
      | Inr probe_function \<Rightarrow>
          (case get_probe s (entry_probe probe_function) of
             Inl err \<Rightarrow> except_clauses err s
           | Inr probe \<Rightarrow>
               (let s1 = s\<lparr>debug_log := debug_log s @
                            [Calling (name probe) function_name function_args]\<rparr>
                in case call_function probe function_name function_args (world s1) of
                     (Inl err, w) \<Rightarrow> except_clauses err (s1\<lparr>world := w\<rparr>)
                   | (Inr probe_result, w) \<Rightarrow>
                       (Inr (Some probe_result),
                        s1\<lparr>world := w,
                           debug_log := debug_log s1 @
                             [FunctionResult (name probe)
                                (fd_name (entry_function probe_function)) probe_result]\<rparr>))))"

section \<open>Notions of the specification\<close>

text \<open>
  What a probe advertises in an environment: the list its listing hook returns there
  (nothing when the hook raises).
\<close>

definition advertised :: "('a, 'd, 'x, 'w) probe \<Rightarrow> 'w \<Rightarrow> 'd fdef list" where
  "advertised p w = (case fst (list_function p w) of Inl err \<Rightarrow> [] | Inr fs \<Rightarrow> fs)"

text \<open>
  A pure listing hook returns, in every environment, the same list, and leaves the
  environment as it found it.
\<close>

definition pure_listing :: "('a, 'd, 'x, 'w) probe \<Rightarrow> bool" where
  "pure_listing p \<longleftrightarrow> (\<forall>w w'. list_function p w = (Inr (advertised p w'), w))"

definition pure_registry :: "('a, 'd, 'x, 'w) probe list \<Rightarrow> bool" where
  "pure_registry ps \<longleftrightarrow> (\<forall>p \<in> set ps. pure_listing p)"

text \<open>
  The entries one pass of the constructor's loops adds: probe by probe in the order of
  \<^verbatim>\<open>__probe_index\<close>, and for each probe its definitions in the order it lists them.
\<close>

definition index_of ::
  "('a, 'd, 'x, 'w) probe list \<Rightarrow> 'w \<Rightarrow> 'd entry list" where
  "index_of ps w =
     concat (map (\<lambda>p. map (\<lambda>f. \<lparr>entry_probe = name p, entry_function = f\<rparr>) (advertised p w)) ps)"

text \<open>Name lists, one per probe, no two of which share a name.\<close>

fun disjoint_names :: "string list list \<Rightarrow> bool" where
  "disjoint_names [] = True"
| "disjoint_names (ns # rest) =
     ((\<forall>ms \<in> set rest. set ns \<inter> set ms = {}) \<and> disjoint_names rest)"

section \<open>An example registry\<close>

text \<open>
  The real registry holds one probe, \<^verbatim>\<open>probes.database\<close>, of another module. The
  examples use stand-ins: a probe that lists the given names, counts in the environment
  how often its execution hook ran, and answers \<^verbatim>\<open>name:function\<close>, or raises a
  \<^verbatim>\<open>ValueError\<close> when the argument dictionary is empty. Arguments are association
  lists from strings to integers.
\<close>

definition demo_probe ::
  "string \<Rightarrow> string list \<Rightarrow> ((string \<times> int) list, string, string, nat) probe" where
  "demo_probe nm fns =
     \<lparr>name = nm,
      list_function = (\<lambda>w. (Inr (map (\<lambda>n. \<lparr>fd_name = n, fd_rest = ''schema''\<rparr>) fns), w)),
      call_function = (\<lambda>fn a w.
        (if a = [] then Inl (OtherError ''ValueError'') else Inr (nm @ '':'' @ fn), Suc w))\<rparr>"

definition demo_registry :: "((string \<times> int) list, string, string, nat) probe list" where
  "demo_registry =
     [demo_probe ''providerA'' [''a1'', ''a2''], demo_probe ''providerB'' [''b1'']]"

definition demo_overlap :: "((string \<times> int) list, string, string, nat) probe list" where
  "demo_overlap =
     [demo_probe ''providerA'' [''a1'', ''shared''],
      demo_probe ''providerB'' [''shared'', ''b1'']]"

text \<open>
  A stream that writes ASCII and refuses every other byte, and a name it refuses: the
  three bytes of the lone surrogate U+D800.
\<close>

definition ascii_stdout :: "string \<Rightarrow> string option" where
  "ascii_stdout text =
     (if list_all (\<lambda>c. \<not> digit7 c) text then None else Some ''UnicodeEncodeError'')"

definition lone_surrogate :: string where
  "lone_surrogate = [CHR 0xED, CHR 0xA0, CHR 0x80]"

text \<open>The class after its first construction, on either registry.\<close>

definition demo_state :: "((string \<times> int) list, string, string, nat) state" where
  "demo_state = snd (init (class_definition demo_registry 0 ascii_stdout))"

definition demo_overlap_state :: "((string \<times> int) list, string, string, nat) state" where
  "demo_overlap_state = snd (init (class_definition demo_overlap 0 ascii_stdout))"

text \<open>A state no construction produces: the entry names a probe that is not registered.\<close>

definition demo_orphan :: "((string \<times> int) list, string, string, nat) state" where
  "demo_orphan =
     \<lparr>probe_index = demo_registry,
      function_index =
        [\<lparr>entry_probe = ''ghost'', entry_function = \<lparr>fd_name = ''g1'', fd_rest = ''schema''\<rparr>\<rparr>],
      world = 0, debug_log = [], stdout = [], stdout_error = ascii_stdout\<rparr>"

section \<open>Loops and lookups\<close>

lemma append_functions_eq:
  "append_functions pn fs idx =
     idx @ map (\<lambda>f. \<lparr>entry_probe = pn, entry_function = f\<rparr>) fs"
  by (induction fs arbitrary: idx) simp_all

lemma pure_listing_call:
  "pure_listing p \<Longrightarrow> list_function p w = (Inr (advertised p w'), w)"
  by (simp add: pure_listing_def)

lemma init_loop_pure:
  "pure_registry ps \<Longrightarrow>
   init_loop ps s =
     (Inr (), s\<lparr>function_index := function_index s @ index_of ps (world s)\<rparr>)"
proof (induction ps arbitrary: s)
  case Nil
  then show ?case by (simp add: index_of_def)
next
  case (Cons p ps)
  from Cons.prems have p: "pure_listing p" and ps: "pure_registry ps"
    by (simp_all add: pure_registry_def)
  have l: "list_function p (world s) = (Inr (advertised p (world s)), world s)"
    using p by (rule pure_listing_call)
  show ?case
    by (simp add: l Cons.IH [OF ps] append_functions_eq index_of_def)
qed

lemma function_list_loop_pure:
  "pure_registry ps \<Longrightarrow>
   function_list_loop ps acc s =
     (Inr (acc @ concat (map (\<lambda>p. advertised p (world s)) ps)), s)"
proof (induction ps arbitrary: acc s)
  case Nil
  then show ?case by simp
next
  case (Cons p ps)
  from Cons.prems have p: "pure_listing p" and ps: "pure_registry ps"
    by (simp_all add: pure_registry_def)
  have l: "list_function p (world s) = (Inr (advertised p (world s)), world s)"
    using p by (rule pure_listing_call)
  show ?case
    by (simp add: l Cons.IH [OF ps])
qed

lemma get_function_loop_Inr:
  "get_function_loop idx n = Inr e \<Longrightarrow> e \<in> set idx \<and> fd_name (entry_function e) = n"
  by (induction idx) (auto split: if_splits)

lemma get_function_loop_Inl:
  "get_function_loop idx n = Inl err \<Longrightarrow>
     err = FunctionNotFoundError (FunctionNotFoundError_init n) \<and>
     n \<notin> set (map (\<lambda>e. fd_name (entry_function e)) idx)"
  by (induction idx) (auto split: if_splits)

lemma get_probe_loop_Inr: "get_probe_loop ps n = Inr p \<Longrightarrow> p \<in> set ps \<and> name p = n"
  by (induction ps) (auto split: if_splits)

lemma get_probe_loop_Inl:
  "get_probe_loop ps n = Inl err \<Longrightarrow>
     err = ProbeNotFoundError (ProbeNotFoundError_init n) \<and> n \<notin> set (map name ps)"
  by (induction ps) (auto split: if_splits)

lemma get_probe_loop_registered:
  "n \<in> set (map name ps) \<Longrightarrow> \<exists>p. get_probe_loop ps n = Inr p"
  by (induction ps) auto




lemma init_pure:
  "pure_registry (probe_index s) \<Longrightarrow>
   init s = (Inr (), s\<lparr>function_index := function_index s @ index_of (probe_index s) (world s)\<rparr>)"
  by (simp add: init_def init_loop_pure)

lemma function_list_pure:
  "pure_registry (probe_index s) \<Longrightarrow>
   function_list s = (Inr (concat (map (\<lambda>p. advertised p (world s)) (probe_index s))), s)"
  by (simp add: function_list_def function_list_loop_pure)

lemma map_entry_function_index_of:
  "map entry_function (index_of ps w) = concat (map (\<lambda>p. advertised p w) ps)"
  by (induction ps) (simp_all add: index_of_def comp_def)

text \<open>Frames: what the operations leave alone, whatever the probes do.\<close>

lemma init_loop_probe_index: "probe_index (snd (init_loop ps s)) = probe_index s"
  by (induction ps arbitrary: s) (auto split: prod.splits sum.splits)

lemma init_loop_index_names:
  "set (map entry_probe (function_index (snd (init_loop ps s)))) \<subseteq>
     set (map entry_probe (function_index s)) \<union> set (map name ps)"
proof (induction ps arbitrary: s)
  case Nil
  then show ?case by simp
next
  case (Cons p ps)
  show ?case
  proof (cases "list_function p (world s)")
    case (Pair r w)
    show ?thesis
    proof (cases r)
      case (Inl err)
      with Pair show ?thesis by auto
    next
      case (Inr fs)
      let ?s = "s\<lparr>world := w, function_index := append_functions (name p) fs (function_index s)\<rparr>"
      have "set (map entry_probe (function_index ?s)) \<subseteq>
          set (map entry_probe (function_index s)) \<union> {name p}"
        by (auto simp: append_functions_eq)
      with Cons.IH [of ?s] Pair Inr show ?thesis
        by auto
    qed
  qed
qed

lemma function_list_loop_frame:
  "snd (function_list_loop ps acc s) = s\<lparr>world := world (snd (function_list_loop ps acc s))\<rparr>"
proof (induction ps arbitrary: acc s)
  case Nil
  then show ?case by simp
next
  case (Cons p ps)
  show ?case
  proof (cases "list_function p (world s)")
    case (Pair r w)
    show ?thesis
    proof (cases r)
      case (Inl err)
      with Pair show ?thesis by simp
    next
      case (Inr fs)
      with Pair Cons.IH [of "acc @ fs" "s\<lparr>world := w\<rparr>"] show ?thesis
        by simp
    qed
  qed
qed



lemma demo_probe_pure: "pure_listing (demo_probe nm fns)"
  by (simp add: pure_listing_def advertised_def demo_probe_def)

lemma demo_registry_pure: "pure_registry demo_registry"
  by (simp add: pure_registry_def demo_registry_def demo_probe_pure)


lemma demo_advertised:
  "advertised (demo_probe nm fns) w = map (\<lambda>n. \<lparr>fd_name = n, fd_rest = ''schema''\<rparr>) fns"
  by (simp add: advertised_def demo_probe_def)

lemma demo_name: "name (demo_probe nm fns) = nm"
  by (simp add: demo_probe_def)


lemma demo_state_eq:
  "demo_state =
     \<lparr>probe_index = demo_registry,
      function_index =
        [\<lparr>entry_probe = ''providerA'', entry_function = \<lparr>fd_name = ''a1'', fd_rest = ''schema''\<rparr>\<rparr>,
         \<lparr>entry_probe = ''providerA'', entry_function = \<lparr>fd_name = ''a2'', fd_rest = ''schema''\<rparr>\<rparr>,
         \<lparr>entry_probe = ''providerB'', entry_function = \<lparr>fd_name = ''b1'', fd_rest = ''schema''\<rparr>\<rparr>],
      world = 0, debug_log = [], stdout = [], stdout_error = ascii_stdout\<rparr>"
  by (simp add: demo_state_def init_def class_definition_def demo_registry_def demo_probe_def
      append_functions_eq)

lemma demo_overlap_state_eq:
  "demo_overlap_state =
     \<lparr>probe_index = demo_overlap,
      function_index =
        [\<lparr>entry_probe = ''providerA'', entry_function = \<lparr>fd_name = ''a1'', fd_rest = ''schema''\<rparr>\<rparr>,
         \<lparr>entry_probe = ''providerA'', entry_function = \<lparr>fd_name = ''shared'', fd_rest = ''schema''\<rparr>\<rparr>,
         \<lparr>entry_probe = ''providerB'', entry_function = \<lparr>fd_name = ''shared'', fd_rest = ''schema''\<rparr>\<rparr>,
         \<lparr>entry_probe = ''providerB'', entry_function = \<lparr>fd_name = ''b1'', fd_rest = ''schema''\<rparr>\<rparr>],
      world = 0, debug_log = [], stdout = [], stdout_error = ascii_stdout\<rparr>"
  by (simp add: demo_overlap_state_def init_def class_definition_def demo_overlap_def
      demo_probe_def append_functions_eq)

section \<open>Resolution\<close>





section \<open>Disjoint listings\<close>

lemma disjoint_filter:
  "disjoint_names (map (\<lambda>p. map fd_name (f p)) ps) \<Longrightarrow> p \<in> set ps \<Longrightarrow>
   n \<in> set (map fd_name (f p)) \<Longrightarrow>
   filter (\<lambda>d. fd_name d = n) (concat (map f ps)) = filter (\<lambda>d. fd_name d = n) (f p)"
proof (induction ps)
  case Nil
  then show ?case by simp
next
  case (Cons q ps)
  from Cons.prems(1) have dq: "\<forall>r \<in> set ps. fd_name ` set (f q) \<inter> fd_name ` set (f r) = {}"
    and dps: "disjoint_names (map (\<lambda>p. map fd_name (f p)) ps)"
    by simp_all
  show ?case
  proof (cases "n \<in> fd_name ` set (f q)")
    case True
    with dq have none: "\<forall>r \<in> set ps. n \<notin> fd_name ` set (f r)" by blast
    then have rest: "filter (\<lambda>d. fd_name d = n) (concat (map f ps)) = []"
      by (auto simp: filter_empty_conv)
    from none Cons.prems(2,3) have "p = q" by auto
    with rest show ?thesis by simp
  next
    case False
    with Cons.prems(2,3) have "p \<in> set ps" by auto
    from Cons.IH [OF dps this Cons.prems(3)] False show ?thesis
      by (auto simp: filter_empty_conv)
  qed
qed

lemma disjoint_distinct:
  "disjoint_names (map (\<lambda>p. map fd_name (f p)) ps) \<Longrightarrow>
   \<forall>p \<in> set ps. distinct (map fd_name (f p)) \<Longrightarrow>
   distinct (map fd_name (concat (map f ps)))"
  by (induction ps) auto

lemma second_construction_appends_again:
  assumes "pure_registry (probe_index s0)" and "function_index s0 = []"
  shows "function_index (snd (init (snd (init s0)))) =
     function_index (snd (init s0)) @ function_index (snd (init s0))"
  using assms by (simp add: init_pure)

section \<open>Lookup failures\<close>

text \<open>
  What \<^verbatim>\<open>function_call\<close> does when either lookup fails, for every name, every
  argument and every stream: no execution hook runs (the probes' environment, both
  indexes and the debug log are as before), the bare name is what goes to the stream, and
  the call returns \<^verbatim>\<open>None\<close> exactly when the stream takes that line; otherwise the
  stream's exception leaves the call and nothing was written.
\<close>

lemma lookup_failure_outcome:
  assumes "get_function s n = Inl err \<or>
           (\<exists>e. get_function s n = Inr e \<and> get_probe s (entry_probe e) = Inl err)"
  shows "\<exists>x. (err = FunctionNotFoundError x \<or> err = ProbeNotFoundError x) \<and>
             function_call n a s =
               (case stdout_error s (str_exception x) of
                  None \<Rightarrow> (Inr None, s\<lparr>stdout := stdout s @ [str_exception x]\<rparr>)
                | Some y \<Rightarrow> (Inl (OtherError y), s))"
  using assms
proof (elim disjE exE conjE)
  assume f: "get_function s n = Inl err"
  then have "err = FunctionNotFoundError (FunctionNotFoundError_init n)"
    by (simp add: get_function_def get_function_loop_Inl)
  with f show ?thesis
    by (simp add: function_call_def py_print_def split: option.splits)
next
  fix e
  assume f: "get_function s n = Inr e"
    and g: "get_probe s (entry_probe e) = Inl err"
  from g have "err = ProbeNotFoundError (ProbeNotFoundError_init (entry_probe e))"
    by (simp add: get_probe_def get_probe_loop_Inl)
  with f g show ?thesis
    by (simp add: function_call_def py_print_def split: option.splits)
qed

lemma lookup_failure_outcome_example:
  "function_call ''missing'' [(''x'', 1)] demo_orphan =
      (Inr None, demo_orphan\<lparr>stdout := [''missing'']\<rparr>) \<and>
   function_call ''g1'' [(''x'', 1)] demo_orphan =
      (Inr None, demo_orphan\<lparr>stdout := [''ghost'']\<rparr>)"
proof -
  have f: "get_function demo_orphan ''missing'' =
      Inl (FunctionNotFoundError (FunctionNotFoundError_init ''missing''))"
    by (simp add: get_function_def demo_orphan_def)
  have g: "\<exists>e. get_function demo_orphan ''g1'' = Inr e \<and>
      get_probe demo_orphan (entry_probe e) =
        Inl (ProbeNotFoundError (ProbeNotFoundError_init ''ghost''))"
    by (simp add: get_function_def get_probe_def demo_orphan_def demo_registry_def
        demo_probe_def)
  have s: "stdout demo_orphan = []" "stdout_error demo_orphan = ascii_stdout"
    by (simp_all add: demo_orphan_def)
  show ?thesis
    using lookup_failure_outcome [OF disjI1, OF f, of "[(''x'', 1)]"]
      lookup_failure_outcome [OF disjI2, OF g, of "[(''x'', 1)]"]
    by (auto simp: s str_exception_def FunctionNotFoundError_init_def
        ProbeNotFoundError_init_def ascii_stdout_def)
qed

section \<open>Claims\<close>

text \<open>
  Claim C1 (lookup failures end in \<^verbatim>\<open>None\<close> and a diagnostic that names the error kind
  and the offending name). The call does return \<^verbatim>\<open>None\<close> here. The diagnostic is
  not the one claimed: \<^verbatim>\<open>print(err)\<close> writes \<^verbatim>\<open>str(err)\<close>, which is the bare
  constructor argument, while the text that names the kind sits unread in \<^verbatim>\<open>err.msg\<close>.
  On the example registry, asking for \<^verbatim>\<open>missing\<close> prints exactly \<^verbatim>\<open>missing\<close>; and a
  missing function and a missing probe of the same name print the same line.
\<close>

theorem lookup_failure_prints_bare_name:
  "function_call ''missing'' [] demo_state =
     (Inr None, demo_state\<lparr>stdout := [''missing'']\<rparr>) \<and>
   exc_msg (FunctionNotFoundError_init ''missing'') =
     ''Probe callable function not found: missing'' \<and>
   stdout (snd (function_call ''ghost'' [] demo_orphan)) = [''ghost''] \<and>
   stdout (snd (function_call ''g1'' [] demo_orphan)) = [''ghost'']"
  by (simp add: function_call_def get_function_def get_probe_def demo_state_eq demo_orphan_def
      demo_registry_def demo_name str_exception_def FunctionNotFoundError_init_def
      ProbeNotFoundError_init_def py_print_def ascii_stdout_def)



text \<open>
  Claim C3 (listing a registry of disjoint providers). With pure listings whose name
  sets are pairwise disjoint, \<^verbatim>\<open>function_list\<close> returns the concatenation of the
  probes' lists in registry order and changes nothing. No omission and no duplicate:
  for a definition \<open>d\<close> that probe \<open>p\<close> advertises, the definitions of that name in the
  result are exactly those in \<open>p\<close>'s own list; and when no probe repeats a name in its
  own list, all names of the result are distinct.
\<close>

theorem function_list_disjoint_registry:
  assumes "pure_registry (probe_index s)"
    and "disjoint_names (map (\<lambda>p. map fd_name (advertised p (world s))) (probe_index s))"
  shows "\<exists>r. function_list s = (Inr r, s) \<and>
     r = concat (map (\<lambda>p. advertised p (world s)) (probe_index s)) \<and>
     (\<forall>p \<in> set (probe_index s). \<forall>d \<in> set (advertised p (world s)).
        filter (\<lambda>d'. fd_name d' = fd_name d) r =
        filter (\<lambda>d'. fd_name d' = fd_name d) (advertised p (world s))) \<and>
     ((\<forall>p \<in> set (probe_index s). distinct (map fd_name (advertised p (world s)))) \<longrightarrow>
        distinct (map fd_name r))"
proof -
  let ?f = "\<lambda>p. advertised p (world s)"
  let ?r = "concat (map ?f (probe_index s))"
  have 1: "function_list s = (Inr ?r, s)"
    using assms(1) by (rule function_list_pure)
  have 2: "\<forall>p \<in> set (probe_index s). \<forall>d \<in> set (?f p).
      filter (\<lambda>d'. fd_name d' = fd_name d) ?r = filter (\<lambda>d'. fd_name d' = fd_name d) (?f p)"
    using disjoint_filter [of ?f "probe_index s", OF assms(2)] by simp
  have 3: "(\<forall>p \<in> set (probe_index s). distinct (map fd_name (?f p))) \<longrightarrow>
      distinct (map fd_name ?r)"
    using disjoint_distinct [of ?f "probe_index s", OF assms(2)] by blast
  from 1 2 3 show ?thesis by blast
qed

theorem function_list_disjoint_registry_witness:
  "pure_registry (probe_index demo_state) \<and>
   disjoint_names
     (map (\<lambda>p. map fd_name (advertised p (world demo_state))) (probe_index demo_state)) \<and>
   function_list demo_state =
     (Inr [\<lparr>fd_name = ''a1'', fd_rest = ''schema''\<rparr>,
           \<lparr>fd_name = ''a2'', fd_rest = ''schema''\<rparr>,
           \<lparr>fd_name = ''b1'', fd_rest = ''schema''\<rparr>], demo_state)"
proof -
  have h: "pure_registry (probe_index demo_state)"
    by (simp add: demo_state_eq demo_registry_pure)
  have d: "disjoint_names
     (map (\<lambda>p. map fd_name (advertised p (world demo_state))) (probe_index demo_state))"
    by (simp add: demo_state_eq demo_registry_def demo_advertised)
  have r: "concat (map (\<lambda>p. advertised p (world demo_state)) (probe_index demo_state)) =
     [\<lparr>fd_name = ''a1'', fd_rest = ''schema''\<rparr>,
      \<lparr>fd_name = ''a2'', fd_rest = ''schema''\<rparr>,
      \<lparr>fd_name = ''b1'', fd_rest = ''schema''\<rparr>]"
    by (simp add: demo_state_eq demo_registry_def demo_advertised)
  from function_list_disjoint_registry [OF h d] r
  have "function_list demo_state =
     (Inr [\<lparr>fd_name = ''a1'', fd_rest = ''schema''\<rparr>,
           \<lparr>fd_name = ''a2'', fd_rest = ''schema''\<rparr>,
           \<lparr>fd_name = ''b1'', fd_rest = ''schema''\<rparr>], demo_state)"
    by auto
  with h d show ?thesis by blast
qed



text \<open>
  Claim C5 (the indexes are built once and read-only afterwards). The operations
  leave both lists alone (\<open>function_list_loop_frame\<close>, \<open>function_call_frame\<close>), but a
  second construction does not: \<^verbatim>\<open>__function_index\<close> is one list shared by all
  instances and \<^verbatim>\<open>__init__\<close> appends to it, so constructing the controller again on the
  example registry turns the index of three entries into one of six, every entry twice.
\<close>

theorem second_construction_duplicates_index:
  "function_index (snd (init demo_state)) = function_index demo_state @ function_index demo_state \<and>
   length (function_index demo_state) = 3 \<and>
   length (function_index (snd (init demo_state))) = 6"
  by (simp add: init_def demo_state_eq demo_registry_def demo_probe_def append_functions_eq)

text \<open>
  Claim C6 (no \<^verbatim>\<open>ProbeNotFoundError\<close> on a constructed index). If the index was empty
  and the constructor then filled it (whatever the listing hooks did, even raising half
  way), every entry that \<^verbatim>\<open>__get_function\<close> returns names a probe that
  \<^verbatim>\<open>__get_probe\<close> finds.
\<close>

theorem constructed_index_names_registered_probes:
  assumes "function_index s0 = []"
    and "s = snd (init s0)"
    and "get_function s n = Inr e"
  shows "\<exists>p. get_probe s (entry_probe e) = Inr p \<and> name p = entry_probe e"
proof -
  have pi: "probe_index s = probe_index s0"
    using assms(2) by (simp add: init_def init_loop_probe_index)
  have "set (map entry_probe (function_index s)) \<subseteq> set (map name (probe_index s0))"
    using init_loop_index_names [of "probe_index s0" s0] assms(1,2)
    by (simp add: init_def)
  moreover from assms(3) have "e \<in> set (function_index s)"
    by (simp add: get_function_def get_function_loop_Inr)
  ultimately have "entry_probe e \<in> set (map name (probe_index s))"
    using pi by auto
  then obtain p where p: "get_probe_loop (probe_index s) (entry_probe e) = Inr p"
    using get_probe_loop_registered by blast
  then have "name p = entry_probe e"
    by (simp add: get_probe_loop_Inr)
  with p show ?thesis
    by (simp add: get_probe_def)
qed

theorem constructed_index_names_registered_probes_witness:
  "function_index (class_definition demo_registry 0 ascii_stdout) = [] \<and>
   demo_state = snd (init (class_definition demo_registry 0 ascii_stdout)) \<and>
   get_function demo_state ''b1'' =
     Inr \<lparr>entry_probe = ''providerB'',
          entry_function = \<lparr>fd_name = ''b1'', fd_rest = ''schema''\<rparr>\<rparr> \<and>
   (\<exists>p. get_probe demo_state ''providerB'' = Inr p \<and> name p = ''providerB'')"
proof -
  let ?e = "\<lparr>entry_probe = ''providerB'',
             entry_function = \<lparr>fd_name = ''b1'', fd_rest = ''schema''\<rparr>\<rparr>"
  have a: "function_index (class_definition demo_registry 0 ascii_stdout) = []"
    by (simp add: class_definition_def)
  have b: "demo_state = snd (init (class_definition demo_registry 0 ascii_stdout))"
    by (simp add: demo_state_def)
  have c: "get_function demo_state ''b1'' = Inr ?e"
    by (simp add: get_function_def demo_state_eq)
  show ?thesis
    using a b c constructed_index_names_registered_probes [OF a b c] by simp
qed



text \<open>
  Claim C8 (\<^verbatim>\<open>function_list\<close> is idempotent). With pure listings the call returns a
  list, leaves the state exactly as it was, and a second call gives the same answer.
\<close>

theorem function_list_idempotent:
  assumes "pure_registry (probe_index s)"
  shows "snd (function_list s) = s \<and>
         function_list (snd (function_list s)) = function_list s \<and>
         (\<exists>r. fst (function_list s) = Inr r)"
  using assms by (simp add: function_list_pure)

theorem function_list_idempotent_witness:
  "pure_registry (probe_index demo_state) \<and>
   snd (function_list demo_state) = demo_state \<and>
   function_list (snd (function_list demo_state)) = function_list demo_state \<and>
   (\<exists>r. fst (function_list demo_state) = Inr r)"
proof -
  have h: "pure_registry (probe_index demo_state)"
    by (simp add: demo_state_eq demo_registry_pure)
  show ?thesis
    using h function_list_idempotent [OF h] by simp
qed

text \<open>
  Claim C9 (\<^verbatim>\<open>function_list\<close> agrees with the function index). With pure listings,
  construction on the empty index succeeds, and in the state it leaves
  \<^verbatim>\<open>function_list\<close> returns the function definitions of the index, in the index's
  order. (The function does not read the index: it asks every probe again.)
\<close>

theorem function_list_equals_index:
  assumes "pure_registry (probe_index s0)" and "function_index s0 = []"
  shows "\<exists>s. init s0 = (Inr (), s) \<and>
             fst (function_list s) = Inr (map entry_function (function_index s))"
  using assms
  by (simp add: init_pure function_list_pure map_entry_function_index_of)

theorem function_list_equals_index_witness:
  "pure_registry (probe_index (class_definition demo_registry 0 ascii_stdout)) \<and>
   function_index (class_definition demo_registry 0 ascii_stdout) = [] \<and>
   (\<exists>s. init (class_definition demo_registry 0 ascii_stdout) = (Inr (), s) \<and>
        fst (function_list s) = Inr (map entry_function (function_index s)))"
proof -
  have h: "pure_registry (probe_index (class_definition demo_registry 0 ascii_stdout))"
    by (simp add: class_definition_def demo_registry_pure)
  have e: "function_index (class_definition demo_registry 0 ascii_stdout) = []"
    by (simp add: class_definition_def)
  show ?thesis
    using h e function_list_equals_index [OF h e] by simp
qed

text \<open>
  Claim C10 (on a lookup failure the call returns \<^verbatim>\<open>None\<close>, runs no execution hook and
  changes neither index). The second half holds for every name (\<open>lookup_failure_outcome\<close>).
  The first does not: the handler prints the name before it returns, and a stream that
  cannot encode the name raises there. On the constructed example registry, asking for
  the lone surrogate, which no function is named, ends in the stream's
  \<^verbatim>\<open>UnicodeEncodeError\<close> leaving \<^verbatim>\<open>function_call\<close>, with the state as it was.
\<close>

theorem lookup_failure_print_raises:
  "get_function demo_state lone_surrogate =
     Inl (FunctionNotFoundError (FunctionNotFoundError_init lone_surrogate)) \<and>
   function_call lone_surrogate [] demo_state =
     (Inl (OtherError ''UnicodeEncodeError''), demo_state)"
  by (simp add: function_call_def get_function_def demo_state_eq lone_surrogate_def
      py_print_def ascii_stdout_def str_exception_def FunctionNotFoundError_init_def)

end
